theory Spec2Isabelle
  imports Complex_Main
begin

section \<open>Strings\<close>

text \<open>
  A JavaScript string is a sequence of UTF-16 code units. The model uses \<^typ>\<open>string\<close>,
  whose characters are the code units below 256 (Latin-1): on these, \<open>toLowerCase\<close> maps
  each unit on its own and keeps the length, and the white space of \<open>trim\<close> and of the
  pattern \<open>\s\<close> is TAB, LF, VT, FF, CR, SPACE and NO-BREAK SPACE.
  JavaScript numbers are modelled by exact rationals (\<^typ>\<open>rat\<close>).
\<close>

definition isWhiteSpace :: "char \<Rightarrow> bool" where
  "isWhiteSpace c = (of_char c \<in> {9, 10, 11, 12, 13, 32, 160 :: nat})"

definition toLowerCaseUnit :: "char \<Rightarrow> char" where
  "toLowerCaseUnit c =
     (let n = of_char c :: nat
      in if (65 \<le> n \<and> n \<le> 90) \<or> (192 \<le> n \<and> n \<le> 222 \<and> n \<noteq> 215)
         then char_of (n + 32) else c)"

definition toLowerCase :: "string \<Rightarrow> string" where
  "toLowerCase s = map toLowerCaseUnit s"

definition trim :: "string \<Rightarrow> string" where
  "trim s = rev (dropWhile isWhiteSpace (rev (dropWhile isWhiteSpace s)))"

text \<open>\<open>str.replace(/\s+/g, ' ')\<close>: every maximal run of white space becomes one space.\<close>

function replaceWhiteSpaceRuns :: "string \<Rightarrow> string" where
  "replaceWhiteSpaceRuns [] = []"
| "replaceWhiteSpaceRuns (c # cs) =
     (if isWhiteSpace c then CHR '' '' # replaceWhiteSpaceRuns (dropWhile isWhiteSpace cs)
      else c # replaceWhiteSpaceRuns cs)"
  by pat_completeness auto
termination
  by (relation "measure length") (auto simp: le_imp_less_Suc length_dropWhile_le)

definition normalize_str :: "string \<Rightarrow> string" where
  "normalize_str str = replaceWhiteSpaceRuns (trim (toLowerCase str))"

section \<open>calculateNameSimilarity\<close>

text \<open>
  The matrix of the source has \<open>n2.length + 1\<close> rows of \<open>n1.length + 1\<close> cells, all
  \<open>null\<close> at first; \<open>null\<close> reads as 0 in JavaScript arithmetic and is modelled by 0.
  \<open>put m j i v\<close> is the assignment \<open>matrix[j][i] = v\<close>.
\<close>

definition newMatrix :: "nat \<Rightarrow> nat \<Rightarrow> nat list list" where
  "newMatrix rows cols = replicate rows (replicate cols 0)"

definition put :: "nat list list \<Rightarrow> nat \<Rightarrow> nat \<Rightarrow> nat \<Rightarrow> nat list list" where
  "put m j i v = m[j := (m ! j)[i := v]]"

definition initMatrix :: "string \<Rightarrow> string \<Rightarrow> nat list list" where
  "initMatrix n1 n2 =
     (let matrix = newMatrix (length n2 + 1) (length n1 + 1);
          matrix = foldl (\<lambda>m i. put m 0 i i) matrix [0..<length n1 + 1]
      in foldl (\<lambda>m j. put m j 0 j) matrix [0..<length n2 + 1])"

definition cellStep :: "string \<Rightarrow> string \<Rightarrow> nat \<Rightarrow> nat list list \<Rightarrow> nat \<Rightarrow> nat list list" where
  "cellStep n1 n2 j m i =
     (let indicator = (if n1 ! (i - 1) = n2 ! (j - 1) then 0 else 1)
      in put m j i (min (min (m ! j ! (i - 1) + 1) (m ! (j - 1) ! i + 1))
                        (m ! (j - 1) ! (i - 1) + indicator)))"

definition rowStep :: "string \<Rightarrow> string \<Rightarrow> nat list list \<Rightarrow> nat \<Rightarrow> nat list list" where
  "rowStep n1 n2 m j = foldl (cellStep n1 n2 j) m [1..<length n1 + 1]"

definition levenshteinMatrix :: "string \<Rightarrow> string \<Rightarrow> nat list list" where
  "levenshteinMatrix n1 n2 = foldl (rowStep n1 n2) (initMatrix n1 n2) [1..<length n2 + 1]"

definition calculateNameSimilarity :: "string \<Rightarrow> string \<Rightarrow> rat" where
  "calculateNameSimilarity name1 name2 =
     (let n1 = normalize_str name1; n2 = normalize_str name2
      in if n1 = n2 then 1
         else let matrix = levenshteinMatrix n1 n2;
                  maxLength = max (length n1) (length n2)
              in if maxLength = 0 then 1
                 else (of_nat maxLength - of_nat (matrix ! length n2 ! length n1))
                        / of_nat maxLength)"


section \<open>Data model\<close>

datatype country = UK | US | India | Japan

text \<open>The keys of \<open>IPatient.countryData\<close>, in the order of their declaration.\<close>

datatype countryField =
    nhsNumber | address | gpName | nhsInsuranceNumber
  | mrn | ssn | healthInsurancePolicyNumber | primaryInsuranceProvider
  | hospitalUidAadhaar | insuranceMemberID | insuranceCompanyName
  | hospitalPatientID | nationalHealthInsuranceCardNumber | prefectureCode

type_synonym countryData = "countryField \<Rightarrow> string option"

text \<open>
  \<open>Partial<IPatient>\<close>: every field may be absent. Only the fields that the duplicate
  checker reads are kept.
\<close>

record PartialPatient =
  name :: "string option"
  age :: "int option"
  country :: "country option"
  countryData :: "countryData option"

text \<open>
  \<open>PatientDocument\<close>, a stored record as \<open>lean()\<close> returns it: name, age and country
  are required by the schema; \<open>_id\<close> and \<open>countryData\<close> are tested for presence by the code.
\<close>

record PatientDocument =
  p_id :: "nat option"
  p_name :: string
  p_age :: int
  p_country :: country
  p_countryData :: "countryData option"

text \<open>JavaScript truthiness of an optional string and of an optional number.\<close>

definition truthy :: "string option \<Rightarrow> bool" where
  "truthy v = (case v of None \<Rightarrow> False | Some s \<Rightarrow> s \<noteq> [])"

definition truthyNum :: "int option \<Rightarrow> bool" where
  "truthyNum v = (case v of None \<Rightarrow> False | Some n \<Rightarrow> n \<noteq> 0)"

section \<open>The record store\<close>

text \<open>
  The queries that the code hands to \<open>Patient.find\<close>: a filter object (a conjunction of
  conditions, \<open>Find []\<close> being the empty filter), an \<open>$or\<close> of filter objects, and the text
  search with its country condition and its \<open>$nin\<close> list of identities.
\<close>

datatype condition =
    NameRegExp string
  | AgeEq int
  | CountryEq country
  | FieldEq countryField string

datatype query =
    Find "condition list"
  | FindOr "condition list list"
  | FindText string "country option" "nat list"

text \<open>
  What belongs to the regular expression engine and to the database is a parameter:
  whether \<open>new RegExp(p, 'i')\<close> is accepted, whether it matches a subject, and whether a
  document satisfies \<open>{$text: {$search: s}, country: c}\<close>. Store calls are taken to succeed.
\<close>

record engine =
  regexpValid :: "string \<Rightarrow> bool"
  regexpTest :: "string \<Rightarrow> string \<Rightarrow> bool"
  textSearch :: "string \<Rightarrow> country option \<Rightarrow> PatientDocument \<Rightarrow> bool"

fun holds :: "engine \<Rightarrow> PatientDocument \<Rightarrow> condition \<Rightarrow> bool" where
  "holds e d (NameRegExp p) = regexpTest e p (p_name d)"
| "holds e d (AgeEq a) = (p_age d = a)"
| "holds e d (CountryEq c) = (p_country d = c)"
| "holds e d (FieldEq f v) =
     (case p_countryData d of None \<Rightarrow> False | Some cd \<Rightarrow> cd f = Some v)"

fun selects :: "engine \<Rightarrow> query \<Rightarrow> PatientDocument \<Rightarrow> bool" where
  "selects e (Find cs) d = list_all (holds e d) cs"
| "selects e (FindOr qs) d = list_ex (list_all (holds e d)) qs"
| "selects e (FindText s c ids) d =
     (textSearch e s c d \<and> (case p_id d of None \<Rightarrow> True | Some i \<Rightarrow> i \<notin> set ids))"

definition Patient_find :: "engine \<Rightarrow> PatientDocument list \<Rightarrow> query \<Rightarrow> PatientDocument list" where
  "Patient_find e db q = filter (selects e q) db"

datatype error = SyntaxError

section \<open>calculateOverallMatchScore\<close>

text \<open>
  The four blocks of the function, each taking and returning the pair
  \<open>(score, totalWeight)\<close>.
\<close>

definition addName :: "PartialPatient \<Rightarrow> PatientDocument \<Rightarrow> rat \<times> rat \<Rightarrow> rat \<times> rat" where
  "addName searchData patient acc =
     (case acc of (score, totalWeight) \<Rightarrow>
        (case name searchData of
           None \<Rightarrow> acc
         | Some n \<Rightarrow>
             if n = [] then acc
             else let nameScore = calculateNameSimilarity n (p_name patient)
                  in (score + nameScore * (4 / 10), totalWeight + 4 / 10)))"

definition addAge :: "PartialPatient \<Rightarrow> PatientDocument \<Rightarrow> rat \<times> rat \<Rightarrow> rat \<times> rat" where
  "addAge searchData patient acc =
     (case acc of (score, totalWeight) \<Rightarrow>
        (case age searchData of
           None \<Rightarrow> acc
         | Some a \<Rightarrow>
             let ageScore = (if a = p_age patient then 1
                             else max 0 (1 - of_int \<bar>a - p_age patient\<bar> / 10))
             in (score + ageScore * (2 / 10), totalWeight + 2 / 10)))"

definition addCountry :: "PartialPatient \<Rightarrow> PatientDocument \<Rightarrow> rat \<times> rat \<Rightarrow> rat \<times> rat" where
  "addCountry searchData patient acc =
     (case acc of (score, totalWeight) \<Rightarrow>
        (case country searchData of
           None \<Rightarrow> acc
         | Some c \<Rightarrow>
             let countryScore = (if c = p_country patient then 1 else 0)
             in (score + countryScore * (1 / 10), totalWeight + 1 / 10)))"

definition scoreFields :: "countryField list" where
  "scoreFields = [nhsNumber, mrn, hospitalUidAadhaar, ssn, healthInsurancePolicyNumber]"

definition fieldStep :: "countryData \<Rightarrow> countryData \<Rightarrow> rat \<times> nat \<Rightarrow> countryField \<Rightarrow> rat \<times> nat" where
  "fieldStep searchCD patientCD acc f =
     (case acc of (countryFieldScore, countryFieldCount) \<Rightarrow>
        if truthy (searchCD f) \<and> truthy (patientCD f)
        then (countryFieldScore + (if searchCD f = patientCD f then 1 else 0),
              countryFieldCount + 1)
        else acc)"

definition addCountryFields ::
  "PartialPatient \<Rightarrow> PatientDocument \<Rightarrow> rat \<times> rat \<Rightarrow> rat \<times> rat" where
  "addCountryFields searchData patient acc =
     (case acc of (score, totalWeight) \<Rightarrow>
        (case (countryData searchData, p_countryData patient) of
           (Some searchCD, Some patientCD) \<Rightarrow>
             (case foldl (fieldStep searchCD patientCD) (0, 0) scoreFields of
                (countryFieldScore, countryFieldCount) \<Rightarrow>
                  if countryFieldCount > 0
                  then (score + (countryFieldScore / of_nat countryFieldCount) * (3 / 10),
                        totalWeight + 3 / 10)
                  else acc)
         | _ \<Rightarrow> acc))"

definition calculateOverallMatchScore :: "PartialPatient \<Rightarrow> PatientDocument \<Rightarrow> rat" where
  "calculateOverallMatchScore searchData patient =
     (case addCountryFields searchData patient
             (addCountry searchData patient
               (addAge searchData patient
                 (addName searchData patient (0, 0)))) of
        (score, totalWeight) \<Rightarrow> if totalWeight > 0 then score / totalWeight else 0)"

section \<open>validateCountrySpecificFields\<close>

definition isDigit :: "char \<Rightarrow> bool" where
  "isDigit c = (48 \<le> (of_char c :: nat) \<and> (of_char c :: nat) \<le> 57)"

text \<open>The pattern \<open>/^[0-9]{10}$/\<close>.\<close>

definition nhsPattern :: "string \<Rightarrow> bool" where
  "nhsPattern s = (length s = 10 \<and> list_all isDigit s)"

text \<open>The pattern \<open>/^[0-9]{3}-[0-9]{2}-[0-9]{4}$/\<close>.\<close>

definition ssnPattern :: "string \<Rightarrow> bool" where
  "ssnPattern s =
     (length s = 11 \<and> list_all isDigit (take 3 s) \<and> s ! 3 = CHR ''-'' \<and>
      list_all isDigit (take 2 (drop 4 s)) \<and> s ! 6 = CHR ''-'' \<and>
      list_all isDigit (drop 7 s))"

text \<open>\<open>if (c) errors.push(msg)\<close>.\<close>

definition pushIf :: "bool \<Rightarrow> string \<Rightarrow> string list \<Rightarrow> string list" where
  "pushIf c msg errors = (if c then errors @ [msg] else errors)"

definition test :: "(string \<Rightarrow> bool) \<Rightarrow> string option \<Rightarrow> bool" where
  "test pattern v = (case v of None \<Rightarrow> False | Some s \<Rightarrow> pattern s)"

definition validateCountrySpecificFields :: "PartialPatient \<Rightarrow> string list \<Rightarrow> string list" where
  "validateCountrySpecificFields data errors =
     (case (country data, countryData data) of
        (Some c, Some cd) \<Rightarrow>
          (case c of
             UK \<Rightarrow>
               (let errors = pushIf (\<not> truthy (name data)) ''Name is required'' errors;
                    errors = pushIf (\<not> truthyNum (age data)) ''Age is required'' errors
                in if \<not> truthy (cd nhsNumber) then errors @ [''NHS Number is required'']
                   else if \<not> test nhsPattern (cd nhsNumber)
                        then errors @ [''NHS Number must be 10 digits'']
                        else errors)
           | US \<Rightarrow>
               (let errors = pushIf (\<not> truthy (name data)) ''Name is required'' errors;
                    errors = pushIf (\<not> truthyNum (age data)) ''Age is required'' errors;
                    errors = pushIf (\<not> truthy (cd mrn)) ''Medical Record Number is required'' errors
                in pushIf (truthy (cd ssn) \<and> \<not> test ssnPattern (cd ssn))
                     ''SSN must be in format XXX-XX-XXXX'' errors)
           | India \<Rightarrow>
               (let errors = pushIf (\<not> truthy (name data)) ''Name is required'' errors;
                    errors = pushIf (\<not> truthyNum (age data)) ''Age is required'' errors
                in pushIf (\<not> truthy (cd hospitalUidAadhaar))
                     ''Hospital UID/Aadhaar is required'' errors)
           | Japan \<Rightarrow>
               (let errors = pushIf (\<not> truthy (name data)) ''Name is required'' errors;
                    errors = pushIf (\<not> truthyNum (age data)) ''Age is required'' errors
                in pushIf (\<not> truthy (cd hospitalPatientID))
                     ''Hospital Patient ID is required'' errors))
      | _ \<Rightarrow> errors)"


section \<open>findDuplicates and analyzeDuplicates\<close>

text \<open>
  Every operation on the store returns the list of the queries it has issued, in order,
  next to its outcome; \<open>Inl\<close> is a thrown error.
\<close>

text \<open>\<open>if (countryData.f) \<dots>\<close>: the condition on the key \<open>f\<close>, when its value is truthy.\<close>

definition fieldCond :: "countryData \<Rightarrow> countryField \<Rightarrow> condition list" where
  "fieldCond cd f =
     (case cd f of None \<Rightarrow> [] | Some v \<Rightarrow> if v = [] then [] else [FieldEq f v])"

definition identifierQueries :: "PartialPatient \<Rightarrow> condition list list" where
  "identifierQueries extractedData =
     (case countryData extractedData of
        None \<Rightarrow> []
      | Some cd \<Rightarrow>
          map (\<lambda>c. [c])
            (fieldCond cd nhsNumber @ fieldCond cd mrn @ fieldCond cd hospitalUidAadhaar @
             fieldCond cd ssn))"

text \<open>\<open>extractedData.name && extractedData.age && extractedData.country\<close>.\<close>

definition nameAgeCountry :: "PartialPatient \<Rightarrow> (string \<times> int \<times> country) option" where
  "nameAgeCountry extractedData =
     (case (name extractedData, age extractedData, country extractedData) of
        (Some n, Some a, Some c) \<Rightarrow> if n \<noteq> [] \<and> a \<noteq> 0 then Some (n, a, c) else None
      | _ \<Rightarrow> None)"

definition runOr ::
  "engine \<Rightarrow> PatientDocument list \<Rightarrow> condition list list \<Rightarrow>
     query list \<times> (error + PatientDocument list)" where
  "runOr e db queries =
     (if length queries = 0 then ([], Inr [])
      else ([FindOr queries], Inr (Patient_find e db (FindOr queries))))"

definition findDuplicates ::
  "engine \<Rightarrow> PatientDocument list \<Rightarrow> PartialPatient \<Rightarrow>
     query list \<times> (error + PatientDocument list)" where
  "findDuplicates e db extractedData =
     (let queries = identifierQueries extractedData
      in case nameAgeCountry extractedData of
           None \<Rightarrow> runOr e db queries
         | Some (n, a, c) \<Rightarrow>
             if \<not> regexpValid e n then ([], Inl SyntaxError)
             else runOr e db (queries @ [[NameRegExp n, AgeEq a, CountryEq c]]))"

record Suggestion =
  field :: string
  suggestedValue :: string
  confidence :: rat

record DuplicateAnalysis =
  isDuplicate :: bool
  duplicatePatients :: "PatientDocument list"
  suggestions :: "Suggestion list"
  validationErrors :: "string list"

text \<open>\<open>name || ''\<close>.\<close>

definition orEmpty :: "string option \<Rightarrow> string" where
  "orEmpty v = (case v of None \<Rightarrow> [] | Some s \<Rightarrow> s)"

definition suggest :: "PartialPatient \<Rightarrow> PatientDocument \<Rightarrow> Suggestion list" where
  "suggest extractedData duplicate =
     (if calculateNameSimilarity (orEmpty (name extractedData)) (p_name duplicate) > 8 / 10
      then [\<lparr>field = ''name'', suggestedValue = p_name duplicate,
             confidence = calculateNameSimilarity (orEmpty (name extractedData))
                            (p_name duplicate)\<rparr>]
      else [])"

definition analyzeDuplicates ::
  "engine \<Rightarrow> PatientDocument list \<Rightarrow> PartialPatient \<Rightarrow>
     query list \<times> (error + DuplicateAnalysis)" where
  "analyzeDuplicates e db extractedData =
     (case findDuplicates e db extractedData of
        (issued, Inl err) \<Rightarrow> (issued, Inl err)
      | (issued, Inr duplicates) \<Rightarrow>
          (issued,
           Inr \<lparr>isDuplicate = (length duplicates > 0),
                duplicatePatients = duplicates,
                suggestions = concat (map (suggest extractedData) duplicates),
                validationErrors = validateCountrySpecificFields extractedData []\<rparr>))"

section \<open>findMatches and the handler of POST /match\<close>

record PartialMatch =
  patient :: PatientDocument
  matchScore :: rat

record MatchResult =
  exactMatches :: "PatientDocument list"
  partialMatches :: "PartialMatch list"

definition exactQuery :: "PartialPatient \<Rightarrow> condition list" where
  "exactQuery searchData =
     (case name searchData of None \<Rightarrow> [] | Some n \<Rightarrow> if n = [] then [] else [NameRegExp n]) @
     (case age searchData of None \<Rightarrow> [] | Some a \<Rightarrow> if a = 0 then [] else [AgeEq a]) @
     (case country searchData of None \<Rightarrow> [] | Some c \<Rightarrow> [CountryEq c]) @
     (case countryData searchData of
        None \<Rightarrow> []
      | Some cd \<Rightarrow>
          fieldCond cd nhsNumber @ fieldCond cd mrn @ fieldCond cd hospitalUidAadhaar)"

text \<open>\<open>exactMatches.map(p => p._id).filter(id => id)\<close>.\<close>

definition identities :: "PatientDocument list \<Rightarrow> nat list" where
  "identities ps = concat (map (\<lambda>p. case p_id p of None \<Rightarrow> [] | Some i \<Rightarrow> [i]) ps)"

text \<open>The loop over the results of the text search, and the final sort.\<close>

definition scoreResults :: "PartialPatient \<Rightarrow> PatientDocument list \<Rightarrow> PartialMatch list" where
  "scoreResults searchData textSearchResults =
     concat (map (\<lambda>result.
        let score = calculateOverallMatchScore searchData result
        in if score > 5 / 10 then [\<lparr>patient = result, matchScore = score\<rparr>] else [])
       textSearchResults)"

text \<open>
  \<open>partialMatches.sort((a, b) => b.matchScore - a.matchScore)\<close>: a stable sort, greater
  scores first.
\<close>

definition sortByScore :: "PartialMatch list \<Rightarrow> PartialMatch list" where
  "sortByScore ms = sort_key (\<lambda>m. - matchScore m) ms"

definition findMatches ::
  "engine \<Rightarrow> PatientDocument list \<Rightarrow> PartialPatient \<Rightarrow>
     query list \<times> (error + MatchResult)" where
  "findMatches e db searchData =
     (if truthy (name searchData) \<and> \<not> regexpValid e (orEmpty (name searchData))
      then ([], Inl SyntaxError)
      else
        let exact = Find (exactQuery searchData);
            exactResults = Patient_find e db exact
        in if truthy (name searchData)
           then
             let text = FindText (orEmpty (name searchData)) (country searchData)
                          (identities exactResults);
                 textSearchResults = Patient_find e db text
             in ([exact, text],
                 Inr \<lparr>exactMatches = exactResults,
                      partialMatches = sortByScore (scoreResults searchData textSearchResults)\<rparr>)
           else ([exact], Inr \<lparr>exactMatches = exactResults, partialMatches = sortByScore []\<rparr>))"

datatype response =
    Success MatchResult
  | Status400 string
  | Status500 string

definition postMatch ::
  "engine \<Rightarrow> PatientDocument list \<Rightarrow> PartialPatient \<Rightarrow> query list \<times> response" where
  "postMatch e db searchData =
     (if \<not> truthy (name searchData) \<and> countryData searchData = None
      then ([], Status400 ''At least name or country-specific data is required for matching'')
      else case findMatches e db searchData of
             (issued, Inl err) \<Rightarrow> (issued, Status500 ''Failed to find matches'')
           | (issued, Inr matchResult) \<Rightarrow> (issued, Success matchResult))"


section \<open>Reference notions\<close>

subsection \<open>Edit distance\<close>

text \<open>
  The Levenshtein distance by its recursion on the two strings, with unit cost for a
  deletion, an insertion and a substitution.
\<close>

fun levenshtein :: "'a list \<Rightarrow> 'a list \<Rightarrow> nat" where
  "levenshtein [] ys = length ys"
| "levenshtein (x # xs) [] = Suc (length xs)"
| "levenshtein (x # xs) (y # ys) =
     min (min (levenshtein xs (y # ys) + 1) (levenshtein (x # xs) ys + 1))
         (levenshtein xs ys + (if x = y then 0 else 1))"

text \<open>One edit: a character is inserted, deleted or replaced anywhere in the string.\<close>

inductive edit1 :: "'a list \<Rightarrow> 'a list \<Rightarrow> bool" where
  insertion: "edit1 (u @ v) (u @ c # v)"
| deletion: "edit1 (u @ c # v) (u @ v)"
| substitution: "edit1 (u @ c # v) (u @ d # v)"

text \<open>
  The matrix has the stated numbers of rows and columns; and its cells hold the distances
  of the prefixes in all rows before \<open>j\<close>, in column 0, and in row \<open>j\<close> up to column \<open>k\<close>.
\<close>

definition dims :: "nat \<Rightarrow> nat \<Rightarrow> nat list list \<Rightarrow> bool" where
  "dims rows cols m \<longleftrightarrow> length m = rows \<and> (\<forall>r<rows. length (m ! r) = cols)"

definition filled :: "string \<Rightarrow> string \<Rightarrow> nat list list \<Rightarrow> nat \<Rightarrow> nat \<Rightarrow> bool" where
  "filled n1 n2 m j k \<longleftrightarrow>
     dims (length n2 + 1) (length n1 + 1) m \<and>
     (\<forall>r i. r \<le> length n2 \<and> i \<le> length n1 \<and> (r < j \<or> i = 0 \<or> (r = j \<and> i \<le> k))
        \<longrightarrow> m ! r ! i = levenshtein (take i n1) (take r n2))"

subsection \<open>The weighted score\<close>

text \<open>
  The score as a weighted average of the components that both sides provide, the
  identifier component being taken over a given list of keys.
\<close>

definition nameComponent :: "PartialPatient \<Rightarrow> PatientDocument \<Rightarrow> rat option" where
  "nameComponent q p =
     (case name q of
        None \<Rightarrow> None
      | Some n \<Rightarrow> if n = [] then None else Some (calculateNameSimilarity n (p_name p)))"

definition ageComponent :: "PartialPatient \<Rightarrow> PatientDocument \<Rightarrow> rat option" where
  "ageComponent q p =
     (case age q of
        None \<Rightarrow> None
      | Some a \<Rightarrow> Some (if a = p_age p then 1 else max 0 (1 - of_int \<bar>a - p_age p\<bar> / 10)))"

definition countryComponent :: "PartialPatient \<Rightarrow> PatientDocument \<Rightarrow> rat option" where
  "countryComponent q p =
     (case country q of None \<Rightarrow> None | Some c \<Rightarrow> Some (if c = p_country p then 1 else 0))"

definition commonFields :: "countryField list \<Rightarrow> countryData \<Rightarrow> countryData \<Rightarrow> countryField list" where
  "commonFields keys a b = filter (\<lambda>f. truthy (a f) \<and> truthy (b f)) keys"

definition identifierComponent ::
  "countryField list \<Rightarrow> PartialPatient \<Rightarrow> PatientDocument \<Rightarrow> rat option" where
  "identifierComponent keys q p =
     (case (countryData q, p_countryData p) of
        (Some a, Some b) \<Rightarrow>
          (let common = commonFields keys a b
           in if common = [] then None
              else Some (of_nat (length (filter (\<lambda>f. a f = b f) common))
                           / of_nat (length common)))
      | _ \<Rightarrow> None)"

definition included :: "rat \<Rightarrow> rat option \<Rightarrow> (rat \<times> rat) list" where
  "included w c = (case c of None \<Rightarrow> [] | Some s \<Rightarrow> [(w, s)])"

definition components ::
  "countryField list \<Rightarrow> PartialPatient \<Rightarrow> PatientDocument \<Rightarrow> (rat \<times> rat) list" where
  "components keys q p =
     included (4 / 10) (nameComponent q p) @ included (2 / 10) (ageComponent q p) @
     included (1 / 10) (countryComponent q p) @
     included (3 / 10) (identifierComponent keys q p)"

definition weightedAverage :: "(rat \<times> rat) list \<Rightarrow> rat" where
  "weightedAverage cs =
     (if cs = [] then 0
      else sum_list (map (\<lambda>(w, s). w * s) cs) / sum_list (map fst cs))"

text \<open>All keys of \<open>countryData\<close>, for the four countries.\<close>

definition allFields :: "countryField list" where
  "allFields =
     [nhsNumber, address, gpName, nhsInsuranceNumber,
      mrn, ssn, healthInsurancePolicyNumber, primaryInsuranceProvider,
      hospitalUidAadhaar, insuranceMemberID, insuranceCompanyName,
      hospitalPatientID, nationalHealthInsuranceCardNumber, prefectureCode]"

subsection \<open>The rule table of the validator\<close>

datatype rule =
    NameRequired
  | AgeRequired
  | FieldRequired countryField string
  | FieldFormat countryField "string \<Rightarrow> bool" string

fun ruleTable :: "country \<Rightarrow> rule list" where
  "ruleTable UK =
     [NameRequired, AgeRequired,
      FieldRequired nhsNumber ''NHS Number is required'',
      FieldFormat nhsNumber nhsPattern ''NHS Number must be 10 digits'']"
| "ruleTable US =
     [NameRequired, AgeRequired,
      FieldRequired mrn ''Medical Record Number is required'',
      FieldFormat ssn ssnPattern ''SSN must be in format XXX-XX-XXXX'']"
| "ruleTable India =
     [NameRequired, AgeRequired,
      FieldRequired hospitalUidAadhaar ''Hospital UID/Aadhaar is required'']"
| "ruleTable Japan =
     [NameRequired, AgeRequired,
      FieldRequired hospitalPatientID ''Hospital Patient ID is required'']"

definition identifiers :: "PartialPatient \<Rightarrow> countryData" where
  "identifiers r = (case countryData r of None \<Rightarrow> (\<lambda>f. None) | Some cd \<Rightarrow> cd)"

text \<open>
  A required field is missing when it is absent or falsy (the empty string, the age 0);
  a format rule is violated by a value that is present and fails the pattern.
\<close>

fun violated :: "PartialPatient \<Rightarrow> rule \<Rightarrow> bool" where
  "violated r NameRequired = (\<not> truthy (name r))"
| "violated r AgeRequired = (\<not> truthyNum (age r))"
| "violated r (FieldRequired f msg) = (\<not> truthy (identifiers r f))"
| "violated r (FieldFormat f pattern msg) =
     (truthy (identifiers r f) \<and> \<not> test pattern (identifiers r f))"

fun message :: "rule \<Rightarrow> string" where
  "message NameRequired = ''Name is required''"
| "message AgeRequired = ''Age is required''"
| "message (FieldRequired f msg) = msg"
| "message (FieldFormat f pattern msg) = msg"

text \<open>
  The validator as the table describes it: name and age are required of every record,
  the identifier rules are those of the record's country.
\<close>

definition rulesFor :: "country option \<Rightarrow> rule list" where
  "rulesFor c = (case c of None \<Rightarrow> [NameRequired, AgeRequired] | Some c' \<Rightarrow> ruleTable c')"

definition Validate :: "PartialPatient \<Rightarrow> string list" where
  "Validate r = map message (filter (violated r) (rulesFor (country r)))"

subsection \<open>Qualifying fields of the exact lookup\<close>

definition uniqueFields :: "countryField list" where
  "uniqueFields = [nhsNumber, mrn, hospitalUidAadhaar, ssn]"

definition zeroQualifying :: "PartialPatient \<Rightarrow> bool" where
  "zeroQualifying r \<longleftrightarrow>
     list_all (\<lambda>f. \<not> truthy (identifiers r f)) uniqueFields \<and>
     \<not> (truthy (name r) \<and> truthyNum (age r) \<and> country r \<noteq> None)"

text \<open>The value of a key in a stored record.\<close>

definition p_identifier :: "PatientDocument \<Rightarrow> countryField \<Rightarrow> string option" where
  "p_identifier d f = (case p_countryData d of None \<Rightarrow> None | Some cd \<Rightarrow> cd f)"

subsection \<open>What the exact lookups select\<close>

text \<open>
  A stored record shares a unique identifier with the record; it has the record's name
  (as a case-insensitive regular expression), age and country; the construction of the
  regular expression throws; and a stored record meets every condition for the fields
  that the record carries.
\<close>

definition sharesIdentifier :: "PartialPatient \<Rightarrow> PatientDocument \<Rightarrow> bool" where
  "sharesIdentifier r d =
     list_ex (\<lambda>f. truthy (identifiers r f) \<and> p_identifier d f = identifiers r f) uniqueFields"

definition sameNameAgeCountry :: "engine \<Rightarrow> PartialPatient \<Rightarrow> PatientDocument \<Rightarrow> bool" where
  "sameNameAgeCountry e r d \<longleftrightarrow>
     truthy (name r) \<and> truthyNum (age r) \<and>
     regexpTest e (orEmpty (name r)) (p_name d) \<and> age r = Some (p_age d) \<and>
     country r = Some (p_country d)"

definition throwsSyntaxError :: "engine \<Rightarrow> PartialPatient \<Rightarrow> bool" where
  "throwsSyntaxError e r \<longleftrightarrow>
     truthy (name r) \<and> truthyNum (age r) \<and> country r \<noteq> None \<and>
     \<not> regexpValid e (orEmpty (name r))"

definition matchesAllCarried :: "engine \<Rightarrow> PartialPatient \<Rightarrow> PatientDocument \<Rightarrow> bool" where
  "matchesAllCarried e r d \<longleftrightarrow>
     (if truthy (name r) then regexpTest e (orEmpty (name r)) (p_name d) else True) \<and>
     (if truthyNum (age r) then age r = Some (p_age d) else True) \<and>
     (if country r = None then True else country r = Some (p_country d)) \<and>
     list_all (\<lambda>f. if truthy (identifiers r f) then p_identifier d f = identifiers r f else True)
       [nhsNumber, mrn, hospitalUidAadhaar]"

text \<open>The text search that \<open>findMatches\<close> issues for a record with a name.\<close>

definition textQuery :: "engine \<Rightarrow> PatientDocument list \<Rightarrow> PartialPatient \<Rightarrow> query" where
  "textQuery e db r =
     FindText (orEmpty (name r)) (country r)
       (identities (Patient_find e db (Find (exactQuery r))))"

definition nameRejected :: "engine \<Rightarrow> PartialPatient \<Rightarrow> bool" where
  "nameRejected e r \<longleftrightarrow> truthy (name r) \<and> \<not> regexpValid e (orEmpty (name r))"

subsection \<open>Components added to a pair\<close>

text \<open>Adding the weighted scores and the weights of a list of components to a pair.\<close>

definition accum :: "(rat \<times> rat) list \<Rightarrow> rat \<times> rat \<Rightarrow> rat \<times> rat" where
  "accum cs acc = (fst acc + sum_list (map (\<lambda>(w, s). w * s) cs), snd acc + sum_list (map fst cs))"

section \<open>Sample data\<close>

text \<open>
  A sample engine, for patterns and search strings made of letters, digits and spaces:
  such a pattern is accepted and matches the subjects in which it occurs, up to case; the
  text search finds the records of the given country that have a word of the search
  string, up to case, in their name or address. The stored records have the shape of the
  seed data.
\<close>

definition isPlain :: "char \<Rightarrow> bool" where
  "isPlain c =
     (let n = of_char c :: nat
      in (48 \<le> n \<and> n \<le> 57) \<or> (65 \<le> n \<and> n \<le> 90) \<or> (97 \<le> n \<and> n \<le> 122) \<or> n = 32)"

definition occursIn :: "string \<Rightarrow> string \<Rightarrow> bool" where
  "occursIn p s = list_ex (\<lambda>k. take (length p) (drop k s) = p) [0..<length s + 1]"

definition wordsOf :: "string \<Rightarrow> string list" where
  "wordsOf s =
     filter (\<lambda>w. w \<noteq> [])
       (foldr (\<lambda>c ws. if isWhiteSpace c then [] # ws else (c # hd ws) # tl ws) s [[]])"

definition indexedText :: "PatientDocument \<Rightarrow> string list" where
  "indexedText d = wordsOf (toLowerCase (p_name d)) @ wordsOf (toLowerCase (orEmpty (p_identifier d address)))"

definition sampleEngine :: engine where
  "sampleEngine =
     \<lparr>regexpValid = list_all isPlain,
      regexpTest = (\<lambda>p s. occursIn (toLowerCase p) (toLowerCase s)),
      textSearch = (\<lambda>s c d.
        list_ex (\<lambda>w. w \<in> set (indexedText d)) (wordsOf (toLowerCase s)) \<and>
        c = Some (p_country d))\<rparr>"

definition noData :: countryData where
  "noData = (\<lambda>f. None)"

definition johnSmith :: PatientDocument where
  "johnSmith =
     \<lparr>p_id = Some 1, p_name = ''John Smith'', p_age = 39, p_country = UK,
      p_countryData = Some (noData(nhsNumber \<mapsto> ''1234567890''))\<rparr>"

definition annLee1 :: PatientDocument where
  "annLee1 =
     \<lparr>p_id = Some 2, p_name = ''Ann Lee'', p_age = 31, p_country = UK,
      p_countryData = Some (noData(nhsNumber \<mapsto> ''2345678901''))\<rparr>"

definition annLee2 :: PatientDocument where
  "annLee2 =
     \<lparr>p_id = Some 3, p_name = ''Ann Lee'', p_age = 31, p_country = UK,
      p_countryData = Some (noData(nhsNumber \<mapsto> ''3456789012''))\<rparr>"

definition takeshi :: PatientDocument where
  "takeshi =
     \<lparr>p_id = Some 4, p_name = ''Takeshi Yamamoto'', p_age = 39, p_country = Japan,
      p_countryData = Some (noData(hospitalPatientID \<mapsto> ''HID-123456''))\<rparr>"

definition sampleStore :: "PatientDocument list" where
  "sampleStore = [johnSmith, annLee1, annLee2, takeshi]"

definition takeshiQuery :: PartialPatient where
  "takeshiQuery =
     \<lparr>name = Some ''Takeshi Yamamoto'', age = Some 39, country = Some Japan,
      countryData = Some (noData(hospitalPatientID \<mapsto> ''HID-789012''))\<rparr>"

definition johnQuery :: PartialPatient where
  "johnQuery =
     \<lparr>name = Some ''John Smith'', age = Some 39, country = Some UK,
      countryData = Some (noData(nhsNumber \<mapsto> ''1234567890''))\<rparr>"

definition ukWithoutNhs :: PartialPatient where
  "ukWithoutNhs =
     \<lparr>name = Some ''John Smith'', age = Some 39, country = Some UK, countryData = Some noData\<rparr>"

definition ukWithoutData :: PartialPatient where
  "ukWithoutData = \<lparr>name = None, age = None, country = Some UK, countryData = None\<rparr>"

definition emptyRecord :: PartialPatient where
  "emptyRecord = \<lparr>name = None, age = None, country = None, countryData = None\<rparr>"

definition bobQuery :: PartialPatient where
  "bobQuery =
     \<lparr>name = Some ''Bob'', age = None, country = None,
      countryData = Some (noData(nhsNumber \<mapsto> ''1234567890''))\<rparr>"


definition nameOnly :: PartialPatient where
  "nameOnly = \<lparr>name = Some ''Ann Lee'', age = None, country = None, countryData = None\<rparr>"

section \<open>Properties of the edit distance\<close>

lemma levenshtein_Nil2: "levenshtein xs [] = length xs"
  by (cases xs) simp_all

lemma levenshtein_same: "levenshtein xs xs = 0"
  by (induction xs) simp_all

lemma levenshtein_sym: "levenshtein xs ys = levenshtein ys xs"
  by (induction xs ys rule: levenshtein.induct) (simp_all add: levenshtein_Nil2 min.commute min.left_commute)

lemma edit1_Cons: "edit1 a b \<Longrightarrow> edit1 (x # a) (x # b)"
proof (induction rule: edit1.induct)
  case (insertion u v c)
  show ?case using edit1.insertion [of "x # u" v c] by simp
next
  case (deletion u c v)
  show ?case using edit1.deletion [of "x # u" c v] by simp
next
  case (substitution u c v d)
  show ?case using edit1.substitution [of "x # u" c v d] by simp
qed

lemma edits_Cons: "(edit1 ^^ n) a b \<Longrightarrow> (edit1 ^^ n) (x # a) (x # b)"
proof (induction n arbitrary: b)
  case 0
  then show ?case by simp
next
  case (Suc n)
  then obtain m where "(edit1 ^^ n) a m" "edit1 m b" by auto
  then show ?case using Suc.IH edit1_Cons by (metis relpowp_Suc_I)
qed

lemma edit1_rev: "edit1 a b \<Longrightarrow> edit1 (rev a) (rev b)"
proof (induction rule: edit1.induct)
  case (insertion u v c)
  show ?case using edit1.insertion [of "rev v" "rev u" c] by simp
next
  case (deletion u c v)
  show ?case using edit1.deletion [of "rev v" c "rev u"] by simp
next
  case (substitution u c v d)
  show ?case using edit1.substitution [of "rev v" c "rev u" d] by simp
qed

lemma edits_rev: "(edit1 ^^ n) a b \<Longrightarrow> (edit1 ^^ n) (rev a) (rev b)"
proof (induction n arbitrary: b)
  case 0
  then show ?case by simp
next
  case (Suc n)
  then obtain m where "(edit1 ^^ n) a m" "edit1 m b" by auto
  then show ?case using Suc.IH edit1_rev by (metis relpowp_Suc_I)
qed

lemma edits_levenshtein: "(edit1 ^^ levenshtein a b) a b"
proof (induction a b rule: levenshtein.induct)
  case (1 ys)
  show ?case
  proof (induction ys)
    case Nil
    show ?case by simp
  next
    case (Cons y ys)
    have "edit1 [] [y]" using edit1.insertion [of "[]" "[]" y] by simp
    moreover have "(edit1 ^^ length ys) [y] (y # ys)" using Cons edits_Cons by fastforce
    ultimately have "(edit1 ^^ Suc (length ys)) [] (y # ys)" by (rule relpowp_Suc_I2)
    then show ?case by simp
  qed
next
  case (2 x xs)
  have "(edit1 ^^ length zs) zs []" for zs :: "'a list"
  proof (induction zs)
    case Nil
    show ?case by simp
  next
    case (Cons z zs)
    have "edit1 (z # zs) zs" using edit1.deletion [of "[]" z zs] by simp
    then have "(edit1 ^^ Suc (length zs)) (z # zs) []" using Cons by (rule relpowp_Suc_I2)
    then show ?case by simp
  qed
  from this [of "x # xs"] show ?case by simp
next
  case (3 x xs y ys)
  let ?d = "levenshtein xs (y # ys) + 1" and ?i = "levenshtein (x # xs) ys + 1"
    and ?s = "levenshtein xs ys + (if x = y then 0 else 1)"
  have d: "(edit1 ^^ ?d) (x # xs) (y # ys)"
  proof -
    have "edit1 (x # xs) xs" using edit1.deletion [of "[]" x xs] by simp
    then have "(edit1 ^^ Suc (levenshtein xs (y # ys))) (x # xs) (y # ys)"
      using 3(1) by (rule relpowp_Suc_I2)
    then show ?thesis by simp
  qed
  have i: "(edit1 ^^ ?i) (x # xs) (y # ys)"
  proof -
    have "edit1 (x # xs) (y # x # xs)" using edit1.insertion [of "[]" "x # xs" y] by simp
    moreover have "(edit1 ^^ levenshtein (x # xs) ys) (y # x # xs) (y # ys)"
      using 3(2) edits_Cons by fast
    ultimately have "(edit1 ^^ Suc (levenshtein (x # xs) ys)) (x # xs) (y # ys)"
      by (rule relpowp_Suc_I2)
    then show ?thesis by simp
  qed
  have s: "(edit1 ^^ ?s) (x # xs) (y # ys)"
  proof (cases "x = y")
    case True
    then show ?thesis using 3(3) edits_Cons by fastforce
  next
    case False
    have "edit1 (x # xs) (y # xs)" using edit1.substitution [of "[]" x xs y] by simp
    moreover have "(edit1 ^^ levenshtein xs ys) (y # xs) (y # ys)"
      using 3(3) edits_Cons by fast
    ultimately have "(edit1 ^^ Suc (levenshtein xs ys)) (x # xs) (y # ys)"
      by (rule relpowp_Suc_I2)
    then show ?thesis using False by simp
  qed
  have "levenshtein (x # xs) (y # ys) = ?d \<or> levenshtein (x # xs) (y # ys) = ?i
      \<or> levenshtein (x # xs) (y # ys) = ?s"
    by (simp add: min_def)
  then show ?case using d i s by metis
qed


lemma levenshtein_Cons2_le: "levenshtein a (c # v) \<le> levenshtein a v + 1"
  by (cases a; cases v) simp_all

lemma levenshtein_Cons1_le: "levenshtein (x # a) v \<le> levenshtein a v + 1"
  using levenshtein_Cons2_le [of v x a] by (simp add: levenshtein_sym)

lemma levenshtein_drop2_le: "levenshtein a v \<le> levenshtein a (c # v) + 1"
proof (induction a arbitrary: v c)
  case Nil
  show ?case by simp
next
  case (Cons x a)
  have 1: "levenshtein (x # a) v \<le> levenshtein a v + 1" by (rule levenshtein_Cons1_le)
  have 2: "levenshtein a v \<le> levenshtein a (c # v) + 1" by (rule Cons.IH)
  have "levenshtein (x # a) (c # v) = levenshtein a (c # v) + 1
      \<or> levenshtein (x # a) (c # v) = levenshtein (x # a) v + 1
      \<or> levenshtein (x # a) (c # v) = levenshtein a v + (if x = c then 0 else 1)"
    by (simp add: min_def)
  then show ?case using 1 2 by (auto split: if_splits)
qed

lemma levenshtein_subst2_le: "levenshtein a (d # v) \<le> levenshtein a (c # v) + 1"
proof (induction a)
  case Nil
  show ?case by simp
next
  case (Cons x a)
  have 1: "levenshtein (x # a) (d # v) \<le> levenshtein a v + 1" by (simp add: min_le_iff_disj)
  have 2: "levenshtein (x # a) (d # v) \<le> levenshtein (x # a) v + 1"
    by (rule levenshtein_Cons2_le)
  have 3: "levenshtein (x # a) (d # v) \<le> levenshtein a (d # v) + 1" by (rule levenshtein_Cons1_le)
  have "levenshtein (x # a) (c # v) = levenshtein a (c # v) + 1
      \<or> levenshtein (x # a) (c # v) = levenshtein (x # a) v + 1
      \<or> levenshtein (x # a) (c # v) = levenshtein a v + (if x = c then 0 else 1)"
    by (simp add: min_def)
  then show ?case using 1 2 3 Cons by (auto split: if_splits)
qed

lemma min3_mono:
  fixes a b c :: nat
  assumes "a \<le> Suc a'" "b \<le> Suc b'" "c \<le> Suc c'"
  shows "min (min (a + 1) (b + 1)) (c + k) \<le> Suc (min (min (a' + 1) (b' + 1)) (c' + k))"
  using assms by (auto simp: min_def)

text \<open>One edit of the second string moves the distance by at most one.\<close>

lemma levenshtein_ins_le: "levenshtein a (u @ c # v) \<le> Suc (levenshtein a (u @ v))"
proof (induction a u rule: levenshtein.induct)
  case (1 ys)
  show ?case by simp
next
  case (2 x xs)
  show ?case using levenshtein_Cons2_le [of "x # xs" c v] by (simp del: levenshtein.simps)
next
  case (3 x xs y ys)
  show ?case using min3_mono [OF 3 [simplified]] by simp
qed

lemma levenshtein_del_le: "levenshtein a (u @ v) \<le> Suc (levenshtein a (u @ c # v))"
proof (induction a u rule: levenshtein.induct)
  case (1 ys)
  show ?case by simp
next
  case (2 x xs)
  show ?case using levenshtein_drop2_le [of "x # xs" v c] by (simp del: levenshtein.simps)
next
  case (3 x xs y ys)
  show ?case using min3_mono [OF 3 [simplified]] by simp
qed

lemma levenshtein_sub_le: "levenshtein a (u @ d # v) \<le> Suc (levenshtein a (u @ c # v))"
proof (induction a u rule: levenshtein.induct)
  case (1 ys)
  show ?case by simp
next
  case (2 x xs)
  show ?case using levenshtein_subst2_le [of "x # xs" d v c] by (simp del: levenshtein.simps)
next
  case (3 x xs y ys)
  show ?case using min3_mono [OF 3 [simplified]] by simp
qed

lemma levenshtein_edit1_le: "edit1 b b' \<Longrightarrow> levenshtein a b' \<le> Suc (levenshtein a b)"
  by (induction rule: edit1.induct)
    (simp_all add: levenshtein_ins_le levenshtein_del_le levenshtein_sub_le del: levenshtein.simps)

lemma levenshtein_le_edits: "(edit1 ^^ n) a b \<Longrightarrow> levenshtein a b \<le> n"
proof (induction n arbitrary: b)
  case 0
  then show ?case by (simp add: levenshtein_same)
next
  case (Suc n)
  then obtain m where m: "(edit1 ^^ n) a m" "edit1 m b" by auto
  have "levenshtein a b \<le> Suc (levenshtein a m)" using m(2) by (rule levenshtein_edit1_le)
  also have "\<dots> \<le> Suc n" using Suc.IH [OF m(1)] by simp
  finally show ?case .
qed

text \<open>The distance is the least number of single-character edits.\<close>

lemma levenshtein_Least: "levenshtein a b = (LEAST n. (edit1 ^^ n) a b)"
  by (rule Least_equality [symmetric]) (simp_all add: edits_levenshtein levenshtein_le_edits)

lemma levenshtein_rev: "levenshtein (rev a) (rev b) = levenshtein a b"
proof (rule antisym)
  show "levenshtein (rev a) (rev b) \<le> levenshtein a b"
    by (rule levenshtein_le_edits) (rule edits_rev, rule edits_levenshtein)
  have "levenshtein (rev (rev a)) (rev (rev b)) \<le> levenshtein (rev a) (rev b)"
    by (rule levenshtein_le_edits) (rule edits_rev, rule edits_levenshtein)
  then show "levenshtein a b \<le> levenshtein (rev a) (rev b)" by simp
qed

lemma levenshtein_snoc:
  "levenshtein (xs @ [x]) (ys @ [y]) =
     min (min (levenshtein xs (ys @ [y]) + 1) (levenshtein (xs @ [x]) ys + 1))
         (levenshtein xs ys + (if x = y then 0 else 1))"
proof -
  have "levenshtein (xs @ [x]) (ys @ [y]) = levenshtein (x # rev xs) (y # rev ys)"
    using levenshtein_rev [of "xs @ [x]" "ys @ [y]"] by simp
  also have "\<dots> = min (min (levenshtein (rev xs) (y # rev ys) + 1) (levenshtein (x # rev xs) (rev ys) + 1))
         (levenshtein (rev xs) (rev ys) + (if x = y then 0 else 1))" by simp
  also have "levenshtein (rev xs) (y # rev ys) = levenshtein xs (ys @ [y])"
    using levenshtein_rev [of xs "ys @ [y]"] by simp
  also have "levenshtein (x # rev xs) (rev ys) = levenshtein (xs @ [x]) ys"
    using levenshtein_rev [of "xs @ [x]" ys] by simp
  also have "levenshtein (rev xs) (rev ys) = levenshtein xs ys" by (rule levenshtein_rev)
  finally show ?thesis .
qed

lemma levenshtein_le_max: "levenshtein xs ys \<le> max (length xs) (length ys)"
  by (induction xs ys rule: levenshtein.induct) (auto simp: min_le_iff_disj)


lemma dims_put:
  assumes "dims R C m"
  shows "dims R C (put m j i v)"
proof -
  have "length (m[j := (m ! j)[i := v]] ! r) = C" if "r < R" for r
    using assms that by (cases "r = j") (simp_all add: dims_def)
  then show ?thesis using assms by (simp add: dims_def put_def)
qed

lemma nth_put:
  "dims R C m \<Longrightarrow> j < R \<Longrightarrow> i < C \<Longrightarrow>
     put m j i v ! r ! c = (if r = j \<and> c = i then v else m ! r ! c)"
  by (auto simp: dims_def put_def nth_list_update)

lemma dims_newMatrix: "dims R C (newMatrix R C)"
  by (simp add: dims_def newMatrix_def)

lemma init_row0:
  "k \<le> C \<Longrightarrow> 0 < R \<Longrightarrow>
   dims R C (foldl (\<lambda>m i. put m 0 i i) (newMatrix R C) [0..<k]) \<and>
   (\<forall>i<k. foldl (\<lambda>m i. put m 0 i i) (newMatrix R C) [0..<k] ! 0 ! i = i)"
proof (induction k)
  case 0
  show ?case by (simp add: dims_newMatrix)
next
  case (Suc k)
  let ?m = "foldl (\<lambda>m i. put m 0 i i) (newMatrix R C) [0..<k]"
  have d: "dims R C ?m" and v: "\<forall>i<k. ?m ! 0 ! i = i" using Suc by simp_all
  have "put ?m 0 k k ! 0 ! i = i" if "i < Suc k" for i
    using that v Suc.prems nth_put [OF d, of 0 k k 0 i] by (cases "i = k") auto
  then show ?case using dims_put [OF d] by simp
qed

lemma init_col0:
  assumes d: "dims R C m0" and "0 < C"
  shows "k \<le> R \<Longrightarrow>
   dims R C (foldl (\<lambda>m j. put m j 0 j) m0 [0..<k]) \<and>
   (\<forall>j<k. foldl (\<lambda>m j. put m j 0 j) m0 [0..<k] ! j ! 0 = j) \<and>
   (\<forall>r i. r < R \<and> 0 < i \<longrightarrow> foldl (\<lambda>m j. put m j 0 j) m0 [0..<k] ! r ! i = m0 ! r ! i)"
proof (induction k)
  case 0
  show ?case using d by simp
next
  case (Suc k)
  let ?m = "foldl (\<lambda>m j. put m j 0 j) m0 [0..<k]"
  have dm: "dims R C ?m" and v: "\<forall>j<k. ?m ! j ! 0 = j"
    and o: "\<forall>r i. r < R \<and> 0 < i \<longrightarrow> ?m ! r ! i = m0 ! r ! i" using Suc by simp_all
  have n: "put ?m k 0 k ! r ! c = (if r = k \<and> c = 0 then k else ?m ! r ! c)" for r c
    using nth_put [OF dm, of k 0 k r c] Suc.prems assms(2) by simp
  show ?case using dims_put [OF dm] v o by (auto simp: n less_Suc_eq)
qed

lemma filled_initMatrix: "filled n1 n2 (initMatrix n1 n2) 1 0"
proof -
  let ?R = "length n2 + 1" and ?C = "length n1 + 1"
  let ?m1 = "foldl (\<lambda>m i. put m 0 i i) (newMatrix ?R ?C) [0..<?C]"
  have r0: "dims ?R ?C ?m1" "\<forall>i<?C. ?m1 ! 0 ! i = i"
    using init_row0 [of ?C ?C ?R] by simp_all
  have c0: "dims ?R ?C (initMatrix n1 n2)" "\<forall>j<?R. initMatrix n1 n2 ! j ! 0 = j"
    "\<forall>r i. r < ?R \<and> 0 < i \<longrightarrow> initMatrix n1 n2 ! r ! i = ?m1 ! r ! i"
    using init_col0 [OF r0(1), of ?R] by (simp_all add: initMatrix_def Let_def)
  show ?thesis
    unfolding filled_def
  proof (intro conjI allI impI)
    show "dims ?R ?C (initMatrix n1 n2)" by (rule c0(1))
  next
    fix r i
    assume a: "r \<le> length n2 \<and> i \<le> length n1 \<and> (r < 1 \<or> i = 0 \<or> r = 1 \<and> i \<le> 0)"
    show "initMatrix n1 n2 ! r ! i = levenshtein (take i n1) (take r n2)"
    proof (cases "i = 0")
      case True
      then show ?thesis using a c0(2) by simp
    next
      case False
      then have "r = 0" using a by auto
      then show ?thesis using a False c0(3) r0(2) by (simp add: levenshtein_Nil2)
    qed
  qed
qed

lemma filled_cellStep:
  assumes f: "filled n1 n2 m j k" and j: "1 \<le> j" "j \<le> length n2" and k: "k < length n1"
  shows "filled n1 n2 (cellStep n1 n2 j m (Suc k)) j (Suc k)"
proof -
  let ?R = "length n2 + 1" and ?C = "length n1 + 1"
  let ?D = "\<lambda>r i. levenshtein (take i n1) (take r n2)"
  obtain j' where j': "j = Suc j'" using j(1) by (cases j) auto
  have d: "dims ?R ?C m" using f by (simp add: filled_def)
  have old: "m ! r ! i = ?D r i"
    if "r \<le> length n2" "i \<le> length n1" "r < j \<or> i = 0 \<or> (r = j \<and> i \<le> k)" for r i
    using f that by (simp add: filled_def)
  have a: "m ! j ! k = ?D j k" using old [of j k] j k by simp
  have b: "m ! j' ! Suc k = ?D j' (Suc k)" using old [of j' "Suc k"] j k j' by simp
  have c: "m ! j' ! k = ?D j' k" using old [of j' k] j k j' by simp
  have t1: "take (Suc k) n1 = take k n1 @ [n1 ! k]" using k by (simp add: take_Suc_conv_app_nth)
  have t2: "take (Suc j') n2 = take j' n2 @ [n2 ! j']"
    using j j' by (simp add: take_Suc_conv_app_nth)
  have new: "?D j (Suc k) = min (min (?D j k + 1) (?D j' (Suc k) + 1))
       (?D j' k + (if n1 ! k = n2 ! j' then 0 else 1))"
    unfolding j' t1 t2 levenshtein_snoc ..
  have step: "cellStep n1 n2 j m (Suc k) = put m j (Suc k) (?D j (Suc k))"
    unfolding new using a b c unfolding j' by (simp add: cellStep_def Let_def)
  have n: "put m j (Suc k) v ! r ! i = (if r = j \<and> i = Suc k then v else m ! r ! i)" for v r i
    using nth_put [OF d, of j "Suc k" v r i] j k by simp
  show ?thesis
    unfolding filled_def step
  proof (intro conjI allI impI)
    show "dims ?R ?C (put m j (Suc k) (?D j (Suc k)))" using d by (rule dims_put)
  next
    fix r i
    assume "r \<le> length n2 \<and> i \<le> length n1 \<and> (r < j \<or> i = 0 \<or> r = j \<and> i \<le> Suc k)"
    then show "put m j (Suc k) (?D j (Suc k)) ! r ! i = ?D r i"
      using old [of r i] by (auto simp: n le_Suc_eq)
  qed
qed

lemma filled_row_loop:
  assumes j: "1 \<le> j" "j \<le> length n2" and f: "filled n1 n2 m j 0"
  shows "k \<le> length n1 \<Longrightarrow> filled n1 n2 (foldl (cellStep n1 n2 j) m [1..<Suc k]) j k"
proof (induction k)
  case 0
  show ?case using f by simp
next
  case (Suc k)
  then have "filled n1 n2 (foldl (cellStep n1 n2 j) m [1..<Suc k]) j k" by simp
  from filled_cellStep [OF this j] Suc.prems show ?case by simp
qed

lemma filled_next_row: "filled n1 n2 m j (length n1) \<Longrightarrow> filled n1 n2 m (Suc j) 0"
  by (auto simp: filled_def less_Suc_eq)

lemma filled_rowStep:
  "1 \<le> j \<Longrightarrow> j \<le> length n2 \<Longrightarrow> filled n1 n2 m j 0 \<Longrightarrow> filled n1 n2 (rowStep n1 n2 m j) (Suc j) 0"
  using filled_row_loop [of j n2 n1 m "length n1"] by (simp add: rowStep_def filled_next_row)

lemma filled_rows:
  "k \<le> length n2 \<Longrightarrow>
     filled n1 n2 (foldl (rowStep n1 n2) (initMatrix n1 n2) [1..<Suc k]) (Suc k) 0"
proof (induction k)
  case 0
  show ?case using filled_initMatrix by simp
next
  case (Suc k)
  then have "filled n1 n2 (foldl (rowStep n1 n2) (initMatrix n1 n2) [1..<Suc k]) (Suc k) 0"
    by simp
  from filled_rowStep [OF _ _ this] Suc.prems show ?case by simp
qed

lemma levenshteinMatrix_cell:
  "levenshteinMatrix n1 n2 ! length n2 ! length n1 = levenshtein n1 n2"
  using filled_rows [of "length n2" n2 n1] by (simp add: levenshteinMatrix_def filled_def)



section \<open>Properties of the name similarity\<close>

lemma calculateNameSimilarity_levenshtein:
  "calculateNameSimilarity a b =
     (let n1 = normalize_str a; n2 = normalize_str b;
          maxLen = max (length n1) (length n2)
      in if n1 = n2 then 1
         else (of_nat maxLen - of_nat (levenshtein n1 n2)) / of_nat maxLen)"
proof -
  have "max (length (normalize_str a)) (length (normalize_str b)) \<noteq> 0"
    if "normalize_str a \<noteq> normalize_str b"
    using that by (cases "normalize_str a"; cases "normalize_str b") auto
  then show ?thesis
    by (simp add: calculateNameSimilarity_def Let_def levenshteinMatrix_cell)
qed


lemma john_smith: "calculateNameSimilarity ''John Smith'' ''john   smith'' = 1"
  by code_simp

lemma calculateNameSimilarity_bounds:
  "0 \<le> calculateNameSimilarity a b \<and> calculateNameSimilarity a b \<le> 1"
proof (cases "normalize_str a = normalize_str b")
  case True
  then show ?thesis by (simp add: calculateNameSimilarity_levenshtein)
next
  case False
  let ?n1 = "normalize_str a" and ?n2 = "normalize_str b"
  let ?L = "max (length ?n1) (length ?n2)"
  have pos: "0 < ?L" using False by (cases ?n1; cases ?n2) auto
  have "levenshtein ?n1 ?n2 \<le> ?L" by (rule levenshtein_le_max)
  then have le: "(of_nat (levenshtein ?n1 ?n2) :: rat) \<le> of_nat ?L"
    by (simp only: of_nat_le_iff)
  have v: "calculateNameSimilarity a b = (of_nat ?L - of_nat (levenshtein ?n1 ?n2)) / of_nat ?L"
    using False by (simp add: calculateNameSimilarity_levenshtein Let_def)
  have p: "(0::rat) < of_nat ?L" using pos by (simp only: of_nat_0_less_iff)
  show ?thesis unfolding v using le p by (simp add: divide_le_eq_1 zero_le_divide_iff)
qed

lemma calculateNameSimilarity_same: "calculateNameSimilarity a a = 1"
  by (simp add: calculateNameSimilarity_def)


section \<open>Properties of the overall score\<close>

lemma accum_append: "accum (cs @ ds) acc = accum ds (accum cs acc)"
  by (simp add: accum_def)

lemma addName_accum: "addName q p acc = accum (included (4 / 10) (nameComponent q p)) acc"
  by (cases acc) (simp add: addName_def accum_def included_def nameComponent_def Let_def
      split: option.splits)

lemma addAge_accum: "addAge q p acc = accum (included (2 / 10) (ageComponent q p)) acc"
  by (cases acc) (simp add: addAge_def accum_def included_def ageComponent_def Let_def
      split: option.splits)

lemma addCountry_accum:
  "addCountry q p acc = accum (included (1 / 10) (countryComponent q p)) acc"
  by (cases acc) (simp add: addCountry_def accum_def included_def countryComponent_def Let_def
      split: option.splits)

lemma foldl_fieldStep:
  "foldl (fieldStep a b) (x, n) keys =
     (x + of_nat (length (filter (\<lambda>f. a f = b f) (commonFields keys a b))),
      n + length (commonFields keys a b))"
  by (induction keys arbitrary: x n) (simp_all add: fieldStep_def commonFields_def)

lemma addCountryFields_accum:
  "addCountryFields q p acc = accum (included (3 / 10) (identifierComponent keys q p)) acc"
  if "keys = scoreFields"
  unfolding that
  by (cases acc)
    (simp add: addCountryFields_def accum_def included_def identifierComponent_def Let_def
      foldl_fieldStep split: option.splits)

lemma components_weights: "c \<in> set (components keys q p) \<Longrightarrow> 0 < fst c"
  by (auto simp: components_def included_def split: option.splits)

lemma sum_weights_pos:
  "cs \<noteq> [] \<Longrightarrow> \<forall>c\<in>set cs. 0 < fst c \<Longrightarrow> (0::rat) < sum_list (map fst cs)"
proof (induction cs)
  case Nil
  then show ?case by simp
next
  case (Cons c cs)
  show ?case
  proof (cases "cs = []")
    case True
    then show ?thesis using Cons.prems by simp
  next
    case False
    then have "0 < sum_list (map fst cs)" using Cons by simp
    then show ?thesis using Cons.prems by (simp add: add_pos_pos)
  qed
qed

lemma calculateOverallMatchScore_weighted:
  "calculateOverallMatchScore q p = weightedAverage (components scoreFields q p)"
proof -
  let ?cs = "components scoreFields q p"
  have acc: "addCountryFields q p (addCountry q p (addAge q p (addName q p (0, 0))))
      = accum ?cs (0, 0)"
    by (simp add: addName_accum addAge_accum addCountry_accum
        addCountryFields_accum [OF refl] components_def accum_append)
  have pos: "0 < sum_list (map fst ?cs)" if "?cs \<noteq> []"
    using that components_weights by (intro sum_weights_pos) auto
  show ?thesis
  proof (cases "?cs = []")
    case True
    then show ?thesis by (simp add: calculateOverallMatchScore_def acc accum_def weightedAverage_def)
  next
    case False
    then show ?thesis using pos
      by (simp add: calculateOverallMatchScore_def acc accum_def weightedAverage_def)
  qed
qed


lemma weighted_sum_bounds:
  "\<forall>c\<in>set cs. 0 < fst c \<and> 0 \<le> snd c \<and> snd c \<le> 1 \<Longrightarrow>
     (0::rat) \<le> sum_list (map (\<lambda>(w, s). w * s) cs) \<and>
     sum_list (map (\<lambda>(w, s). w * s) cs) \<le> sum_list (map fst cs)"
proof (induction cs)
  case Nil
  show ?case by simp
next
  case (Cons c cs)
  obtain w s where c: "c = (w, s)" by (cases c)
  have w: "0 < w" "0 \<le> s" "s \<le> 1" using Cons.prems c by simp_all
  have 1: "0 \<le> w * s" using w by simp
  have 2: "w * s \<le> w" using w by (simp add: mult_left_le)
  have IH: "0 \<le> sum_list (map (\<lambda>(w, s). w * s) cs)"
    "sum_list (map (\<lambda>(w, s). w * s) cs) \<le> sum_list (map fst cs)"
    using Cons by simp_all
  show ?case unfolding c using IH 1 2 by (simp add: add_mono)
qed

lemma weightedAverage_bounds:
  assumes "\<forall>c\<in>set cs. 0 < fst c \<and> 0 \<le> snd c \<and> snd c \<le> 1"
  shows "0 \<le> weightedAverage cs \<and> weightedAverage cs \<le> 1"
proof (cases "cs = []")
  case True
  then show ?thesis by (simp add: weightedAverage_def)
next
  case False
  have pos: "0 < sum_list (map fst cs)" using False assms by (intro sum_weights_pos) auto
  show ?thesis using weighted_sum_bounds [OF assms] pos False
    by (simp add: weightedAverage_def divide_le_eq_1)
qed

lemma weightedAverage_ones:
  assumes "cs \<noteq> []" and "\<forall>c\<in>set cs. 0 < fst c \<and> snd c = 1"
  shows "weightedAverage cs = 1"
proof -
  have pos: "0 < sum_list (map fst cs)" using assms by (intro sum_weights_pos) auto
  have "sum_list (map (\<lambda>(w, s). w * s) cs) = sum_list (map fst cs)"
    using assms(2) by (induction cs) auto
  then show ?thesis using pos assms(1) by (simp add: weightedAverage_def)
qed

lemma identifierComponent_bounds:
  "identifierComponent keys q p = Some v \<Longrightarrow> 0 \<le> v \<and> v \<le> 1"
proof -
  assume a: "identifierComponent keys q p = Some v"
  then obtain a b where ab: "countryData q = Some a" "p_countryData p = Some b"
    by (auto simp: identifierComponent_def split: option.splits)
  let ?c = "commonFields keys a b"
  have ne: "?c \<noteq> []" and v: "v = of_nat (length (filter (\<lambda>f. a f = b f) ?c)) / of_nat (length ?c)"
    using a ab by (auto simp: identifierComponent_def Let_def split: if_splits)
  have "length (filter (\<lambda>f. a f = b f) ?c) \<le> length ?c" by (rule length_filter_le)
  then have "(of_nat (length (filter (\<lambda>f. a f = b f) ?c)) :: rat) \<le> of_nat (length ?c)"
    by (simp only: of_nat_le_iff)
  moreover have "(0::rat) < of_nat (length ?c)" using ne by simp
  ultimately show ?thesis unfolding v by (simp add: divide_le_eq_1)
qed

lemma included_iff: "c \<in> set (included w x) \<longleftrightarrow> (\<exists>s. x = Some s \<and> c = (w, s))"
  by (cases x) (auto simp: included_def)

lemma components_scores:
  assumes "c \<in> set (components keys q p)"
  shows "0 \<le> snd c \<and> snd c \<le> 1"
proof -
  have n: "nameComponent q p = Some v \<Longrightarrow> 0 \<le> v \<and> v \<le> 1" for v
    using calculateNameSimilarity_bounds
    by (auto simp: nameComponent_def split: option.splits if_splits)
  have a: "ageComponent q p = Some v \<Longrightarrow> 0 \<le> v \<and> v \<le> 1" for v
    by (auto simp: ageComponent_def split: option.splits if_splits)
  have k: "countryComponent q p = Some v \<Longrightarrow> 0 \<le> v \<and> v \<le> 1" for v
    by (auto simp: countryComponent_def split: option.splits if_splits)
  note i = identifierComponent_bounds [of keys q p]
  show ?thesis using assms n a k i by (auto simp: components_def included_iff)
qed

lemma calculateOverallMatchScore_bounds:
  "0 \<le> calculateOverallMatchScore q p \<and> calculateOverallMatchScore q p \<le> 1"
  unfolding calculateOverallMatchScore_weighted
  by (rule weightedAverage_bounds) (simp add: components_weights components_scores)

lemma identifierComponent_same:
  assumes "identifierComponent keys q p = Some v" and "countryData q = p_countryData p"
  shows "v = 1"
proof -
  obtain a where a: "countryData q = Some a" "p_countryData p = Some a"
    using assms by (auto simp: identifierComponent_def split: option.splits)
  show ?thesis using assms(1) a
    by (auto simp: identifierComponent_def Let_def split: if_splits)
qed

lemma calculateOverallMatchScore_identical:
  assumes "name q = Some (p_name p)" "age q = Some (p_age p)"
    "country q = Some (p_country p)" "countryData q = p_countryData p"
  shows "calculateOverallMatchScore q p = 1"
proof -
  let ?cs = "components scoreFields q p"
  have ne: "?cs \<noteq> []" using assms(2) by (simp add: components_def included_def ageComponent_def)
  have n: "nameComponent q p = Some v \<Longrightarrow> v = 1" for v
    using assms(1) calculateNameSimilarity_same
    by (auto simp: nameComponent_def split: if_splits)
  have a: "ageComponent q p = Some v \<Longrightarrow> v = 1" for v
    using assms(2) by (auto simp: ageComponent_def)
  have k: "countryComponent q p = Some v \<Longrightarrow> v = 1" for v
    using assms(3) by (auto simp: countryComponent_def)
  have i: "identifierComponent scoreFields q p = Some v \<Longrightarrow> v = 1" for v
    by (rule identifierComponent_same [OF _ assms(4)])
  have "snd c = 1" if "c \<in> set ?cs" for c
    using that n a k i by (auto simp: components_def included_iff)
  then show ?thesis unfolding calculateOverallMatchScore_weighted
    using ne components_weights by (intro weightedAverage_ones) auto
qed

section \<open>Properties of the validator\<close>

lemma validate_table:
  assumes "country r = Some c" "countryData r = Some cd"
  shows "validateCountrySpecificFields r errors = errors @ map message (filter (violated r) (ruleTable c))"
  using assms
  by (cases c) (simp_all add: validateCountrySpecificFields_def pushIf_def identifiers_def Let_def)

lemma validate_skipped:
  "country r = None \<or> countryData r = None \<Longrightarrow> validateCountrySpecificFields r errors = errors"
  by (auto simp: validateCountrySpecificFields_def split: option.splits)

lemma validate_uk_missing_nhs:
  assumes "country r = Some UK" "countryData r = Some cd" "truthy (name r)" "truthyNum (age r)"
    "\<not> truthy (cd nhsNumber)"
  shows "validateCountrySpecificFields r [] = [''NHS Number is required'']"
  using assms by (simp add: validate_table identifiers_def)

section \<open>Properties of the queries\<close>

lemma truthy_None: "\<not> truthy None"
  by (simp add: truthy_def)

lemma selects_FindOr: "selects e (FindOr qs) = (\<lambda>d. list_ex (list_all (holds e d)) qs)"
  by (rule ext) simp

lemma selects_Find: "selects e (Find cs) = (\<lambda>d. list_all (holds e d) cs)"
  by (rule ext) simp

lemma fieldCond_truthy:
  "fieldCond cd f = (if truthy (cd f) then [FieldEq f (orEmpty (cd f))] else [])"
  by (simp add: fieldCond_def truthy_def orEmpty_def split: option.splits)

lemma fieldCond_ex:
  "list_ex (list_all (holds e d)) (map (\<lambda>c. [c]) (fieldCond cd f)) \<longleftrightarrow>
     truthy (cd f) \<and> p_identifier d f = cd f"
  by (auto simp: fieldCond_def truthy_def p_identifier_def split: option.splits)

lemma fieldCond_all:
  "list_all (holds e d) (fieldCond cd f) \<longleftrightarrow>
     (if truthy (cd f) then p_identifier d f = cd f else True)"
  by (auto simp: fieldCond_def truthy_def p_identifier_def split: option.splits)

lemma nameAgeCountry_None:
  "nameAgeCountry r = None \<longleftrightarrow> \<not> (truthy (name r) \<and> truthyNum (age r) \<and> country r \<noteq> None)"
  by (auto simp: nameAgeCountry_def truthy_def truthyNum_def split: option.splits)

lemma nameAgeCountry_Some:
  "nameAgeCountry r = Some (n, a, c) \<longleftrightarrow>
     truthy (name r) \<and> truthyNum (age r) \<and> name r = Some n \<and> age r = Some a \<and> country r = Some c"
  by (auto simp: nameAgeCountry_def truthy_def truthyNum_def split: option.splits)

lemma identifierQueries_sel:
  "list_ex (list_all (holds e d)) (identifierQueries r) \<longleftrightarrow> sharesIdentifier r d"
proof (cases "countryData r")
  case None
  then show ?thesis
    by (simp add: identifierQueries_def sharesIdentifier_def uniqueFields_def identifiers_def
        truthy_None)
next
  case (Some cd)
  then show ?thesis
    by (simp add: identifierQueries_def sharesIdentifier_def uniqueFields_def identifiers_def
        list_ex_append fieldCond_ex)
qed

lemma identifierQueries_Nil:
  "identifierQueries r = [] \<longleftrightarrow> list_all (\<lambda>f. \<not> truthy (identifiers r f)) uniqueFields"
  by (cases "countryData r")
    (auto simp: identifierQueries_def uniqueFields_def identifiers_def fieldCond_truthy
      truthy_None)

lemma runOr_result:
  "snd (runOr e db qs) = Inr (filter (\<lambda>d. list_ex (list_all (holds e d)) qs) db)"
  by (cases qs) (simp_all add: runOr_def Patient_find_def selects_FindOr del: selects.simps)

lemma findDuplicates_result:
  "snd (findDuplicates e db r) =
     (if throwsSyntaxError e r then Inl SyntaxError
      else Inr (filter (\<lambda>d. sharesIdentifier r d \<or> sameNameAgeCountry e r d) db))"
proof (cases "nameAgeCountry r")
  case None
  then have n: "\<not> (truthy (name r) \<and> truthyNum (age r) \<and> country r \<noteq> None)"
    by (simp add: nameAgeCountry_None)
  then have "\<not> sameNameAgeCountry e r d" for d by (auto simp: sameNameAgeCountry_def)
  then show ?thesis using None n
    by (simp add: findDuplicates_def runOr_result identifierQueries_sel throwsSyntaxError_def)
next
  case (Some t)
  obtain n a c where t: "t = (n, a, c)" by (cases t)
  have s: "truthy (name r)" "truthyNum (age r)" "name r = Some n" "age r = Some a" "country r = Some c"
    using Some t nameAgeCountry_Some [of r n a c] by blast+
  have "sameNameAgeCountry e r d \<longleftrightarrow> regexpTest e n (p_name d) \<and> p_age d = a \<and> p_country d = c" for d
    using s by (auto simp: sameNameAgeCountry_def orEmpty_def)
  then show ?thesis using Some t s
    by (simp add: findDuplicates_def runOr_result identifierQueries_sel throwsSyntaxError_def
        orEmpty_def)
qed

lemma findDuplicates_zeroQualifying:
  assumes "zeroQualifying r"
  shows "findDuplicates e db r = ([], Inr [])"
proof -
  have "identifierQueries r = []" using assms by (simp add: zeroQualifying_def identifierQueries_Nil)
  moreover have "nameAgeCountry r = None"
    using assms by (simp add: zeroQualifying_def nameAgeCountry_None)
  ultimately show ?thesis by (simp add: findDuplicates_def runOr_def)
qed

lemma findDuplicates_issued:
  "fst (findDuplicates e db r) = [] \<or>
   (\<exists>qs. qs \<noteq> [] \<and> fst (findDuplicates e db r) = [FindOr qs])"
  by (auto simp: findDuplicates_def runOr_def Let_def split: option.splits)

lemma exactQuery_sel:
  "list_all (holds e d) (exactQuery r) \<longleftrightarrow> matchesAllCarried e r d"
proof -
  have n: "list_all (holds e d)
        (case name r of None \<Rightarrow> [] | Some n \<Rightarrow> if n = [] then [] else [NameRegExp n]) \<longleftrightarrow>
      (if truthy (name r) then regexpTest e (orEmpty (name r)) (p_name d) else True)"
    by (cases "name r") (simp_all add: truthy_def orEmpty_def)
  have a: "list_all (holds e d)
        (case age r of None \<Rightarrow> [] | Some a \<Rightarrow> if a = 0 then [] else [AgeEq a]) \<longleftrightarrow>
      (if truthyNum (age r) then age r = Some (p_age d) else True)"
    by (cases "age r") (auto simp: truthyNum_def)
  have c: "list_all (holds e d) (case country r of None \<Rightarrow> [] | Some c \<Rightarrow> [CountryEq c]) \<longleftrightarrow>
      (if country r = None then True else country r = Some (p_country d))"
    by (cases "country r") auto
  have f: "list_all (holds e d)
        (case countryData r of None \<Rightarrow> []
         | Some cd \<Rightarrow> fieldCond cd nhsNumber @ fieldCond cd mrn @ fieldCond cd hospitalUidAadhaar) \<longleftrightarrow>
      list_all (\<lambda>f. if truthy (identifiers r f) then p_identifier d f = identifiers r f else True)
        [nhsNumber, mrn, hospitalUidAadhaar]"
    by (cases "countryData r")
      (simp_all add: identifiers_def fieldCond_all truthy_None)
  show ?thesis unfolding exactQuery_def matchesAllCarried_def list_all_append n a c f ..
qed


lemma findMatches_rejected:
  "nameRejected e r \<Longrightarrow> findMatches e db r = ([], Inl SyntaxError)"
  by (simp add: findMatches_def nameRejected_def)

lemma findMatches_accepted:
  assumes "\<not> nameRejected e r"
  shows "findMatches e db r =
     (Find (exactQuery r) # (if truthy (name r) then [textQuery e db r] else []),
      Inr \<lparr>exactMatches = filter (matchesAllCarried e r) db,
           partialMatches =
             sortByScore (scoreResults r
               (if truthy (name r) then Patient_find e db (textQuery e db r) else []))\<rparr>)"
proof -
  have "Patient_find e db (Find (exactQuery r)) = filter (matchesAllCarried e r) db"
    by (simp add: Patient_find_def selects_Find exactQuery_sel del: selects.simps)
  then show ?thesis using assms
    by (auto simp: findMatches_def nameRejected_def textQuery_def Let_def scoreResults_def)
qed






lemma postMatch_rejects:
  "\<not> truthy (name r) \<Longrightarrow> countryData r = None \<Longrightarrow>
     postMatch e db r =
       ([], Status400 ''At least name or country-specific data is required for matching'')"
  by (simp add: postMatch_def)

lemma analyzeDuplicates_zeroQualifying:
  "zeroQualifying r \<Longrightarrow>
     analyzeDuplicates e db r =
       ([], Inr \<lparr>isDuplicate = False, duplicatePatients = [], suggestions = [],
                 validationErrors = validateCountrySpecificFields r []\<rparr>)"
  by (simp add: analyzeDuplicates_def findDuplicates_zeroQualifying)

lemma analyzeDuplicates_issued: "fst (analyzeDuplicates e db r) = fst (findDuplicates e db r)"
  by (cases "findDuplicates e db r") (auto simp: analyzeDuplicates_def split: sum.splits)

lemma analyzeDuplicates_no_empty_or: "FindOr [] \<notin> set (fst (analyzeDuplicates e db r))"
  using findDuplicates_issued [of e db r] by (auto simp: analyzeDuplicates_issued)

lemma exactQuery_Nil:
  "exactQuery r = [] \<longleftrightarrow>
     \<not> truthy (name r) \<and> \<not> truthyNum (age r) \<and> country r = None \<and>
     list_all (\<lambda>f. \<not> truthy (identifiers r f)) [nhsNumber, mrn, hospitalUidAadhaar]"
  by (cases "countryData r"; cases "name r"; cases "age r"; cases "country r")
    (simp_all add: exactQuery_def identifiers_def fieldCond_truthy truthy_def truthyNum_def)


lemma fieldCond_clauses: "[] \<notin> set (map (\<lambda>c. [c]) cs)"
  by auto

lemma identifierQueries_clauses: "[] \<notin> set (identifierQueries r)"
  by (cases "countryData r") (auto simp: identifierQueries_def)

lemma findDuplicates_only_or:
  "q \<in> set (fst (findDuplicates e db r)) \<Longrightarrow> \<exists>qs. q = FindOr qs \<and> qs \<noteq> [] \<and> [] \<notin> set qs"
  using identifierQueries_clauses [of r]
  by (auto simp: findDuplicates_def runOr_def Let_def split: option.splits if_splits)

lemma carries_exactQuery:
  "truthy (name r) \<or> truthyNum (age r) \<or> country r \<noteq> None \<or>
     list_ex (\<lambda>f. truthy (identifiers r f)) [nhsNumber, mrn, hospitalUidAadhaar] \<Longrightarrow>
   exactQuery r \<noteq> []"
  unfolding exactQuery_Nil by auto

section \<open>The claims\<close>

text \<open>
  C1. The claim: for every record that carries neither a name nor any identifier field,
  FindMatches fails with InvalidInput before any store access. The handler of POST /match
  refuses a record with no name and no countryData (\<open>postMatch_rejects\<close>), but a record
  whose countryData is present and empty passes its test: for every engine and every
  store, the exact query is then issued with the empty filter, and the answer is a success
  with all stored records as exact matches.
\<close>

theorem C1_empty_countryData_reaches_store:
  "postMatch e db \<lparr>name = None, age = None, country = None, countryData = Some noData\<rparr> =
     ([Find []], Success \<lparr>exactMatches = db, partialMatches = []\<rparr>)"
  by (simp add: postMatch_def findMatches_def truthy_def exactQuery_def fieldCond_def noData_def
      Patient_find_def sortByScore_def)


text \<open>
  C3, as amended. In the overall score, the identifier component (weight 0.3) is the
  average of exact string equality over those of the five keys nhsNumber, mrn,
  hospitalUidAadhaar, ssn and healthInsurancePolicyNumber that carry a non-empty value on
  both the query and the candidate; the component and its weight are left out of the
  renormalized sum exactly when none of these five keys does (or one side has no
  countryData). The score is the weighted average of the components so included.
\<close>

theorem C3_identifier_component:
  "calculateOverallMatchScore q p = weightedAverage (components scoreFields q p) \<and>
   scoreFields = [nhsNumber, mrn, hospitalUidAadhaar, ssn, healthInsurancePolicyNumber]"
  using calculateOverallMatchScore_weighted scoreFields_def by blast

text \<open>
  The claim C3 as stated, over all identifier keys of the four countries, fails: the query
  and the stored record of Takeshi Yamamoto both carry a hospitalPatientID, the two values
  differ, and the score is 1, where the average over all keys gives 7/10.
\<close>

theorem C3_identifier_component_counterexample:
  "truthy (identifiers takeshiQuery hospitalPatientID) \<and>
   truthy (p_identifier takeshi hospitalPatientID) \<and>
   identifiers takeshiQuery hospitalPatientID \<noteq> p_identifier takeshi hospitalPatientID \<and>
   weightedAverage (components allFields takeshiQuery takeshi) = 7 / 10 \<and>
   calculateOverallMatchScore takeshiQuery takeshi = 1"
  by code_simp

text \<open>
  C4, as amended. For every record whose country and countryData are both present, the
  validator returns one message per violated rule of the country's table, in the order of
  the table: a required field (name, age, the country's required identifier) that is
  missing, that is absent or falsy, or an identifier value that is present and fails its
  format pattern. It returns the empty list exactly when no rule of the table is
  violated. A UK record that misses only the NHS number yields the one error
  "NHS Number is required".
\<close>

theorem C4_validate:
  "country r = Some c \<and> countryData r = Some cd \<longrightarrow>
     validateCountrySpecificFields r [] = map message (filter (violated r) (ruleTable c)) \<and>
     (validateCountrySpecificFields r [] = [] \<longleftrightarrow> (\<forall>ru\<in>set (ruleTable c). \<not> violated r ru)) \<and>
     (c = UK \<and> truthy (name r) \<and> truthyNum (age r) \<and> \<not> truthy (cd nhsNumber) \<longrightarrow>
        validateCountrySpecificFields r [] = [''NHS Number is required''])"
proof (intro impI conjI)
  assume a: "country r = Some c \<and> countryData r = Some cd"
  then show t: "validateCountrySpecificFields r [] = map message (filter (violated r) (ruleTable c))"
    by (simp add: validate_table)
  show "validateCountrySpecificFields r [] = [] \<longleftrightarrow> (\<forall>ru\<in>set (ruleTable c). \<not> violated r ru)"
    unfolding t by (simp add: filter_empty_conv)
  assume "c = UK \<and> truthy (name r) \<and> truthyNum (age r) \<and> \<not> truthy (cd nhsNumber)"
  with a show "validateCountrySpecificFields r [] = [''NHS Number is required'']"
    by (simp add: validate_uk_missing_nhs)
qed

theorem C4_validate_witness:
  "country ukWithoutNhs = Some UK \<and> countryData ukWithoutNhs = Some noData \<and>
   truthy (name ukWithoutNhs) \<and> truthyNum (age ukWithoutNhs) \<and> \<not> truthy (noData nhsNumber) \<and>
   validateCountrySpecificFields ukWithoutNhs [] = [''NHS Number is required''] \<and>
   violated ukWithoutNhs (FieldRequired nhsNumber ''NHS Number is required'')"
proof -
  have h: "country ukWithoutNhs = Some UK \<and> countryData ukWithoutNhs = Some noData"
    by (simp add: ukWithoutNhs_def)
  have g: "truthy (name ukWithoutNhs) \<and> truthyNum (age ukWithoutNhs) \<and> \<not> truthy (noData nhsNumber)"
    by (simp add: ukWithoutNhs_def truthy_def truthyNum_def noData_def)
  have v: "violated ukWithoutNhs (FieldRequired nhsNumber ''NHS Number is required'')"
    by (simp add: ukWithoutNhs_def identifiers_def truthy_def noData_def)
  from C4_validate [of ukWithoutNhs UK noData] h g v show ?thesis by blast
qed

text \<open>
  The claim C4 as stated, for every record, fails: a UK record with no name, no age and
  no countryData misses three required fields, and the validator returns no error.
\<close>

theorem C4_validate_counterexample:
  "\<not> truthy (name ukWithoutData) \<and> \<not> truthyNum (age ukWithoutData) \<and>
   \<not> truthy (identifiers ukWithoutData nhsNumber) \<and>
   Validate ukWithoutData =
     [''Name is required'', ''Age is required'', ''NHS Number is required''] \<and>
   validateCountrySpecificFields ukWithoutData [] = []"
  by (simp add: ukWithoutData_def Validate_def rulesFor_def identifiers_def truthy_def
      truthyNum_def validateCountrySpecificFields_def)

text \<open>
  C5, as amended. In AnalyzeDuplicates, whenever the record carries zero qualifying fields
  (no unique identifier value, and not all of name, age and country), the exact lookup
  issues no query and yields no duplicate; and every query it issues is an \<open>$or\<close> of a
  non-empty list of non-empty clauses. FindMatches has no such test: whenever the record
  carries a name, an age, a country or one of nhsNumber, mrn and hospitalUidAadhaar, and
  the name is accepted as a regular expression, it issues first its exact query, with a
  non-empty filter.
\<close>

theorem C5_exact_lookup_skip:
  "(zeroQualifying r \<longrightarrow>
      analyzeDuplicates e db r =
        ([], Inr \<lparr>isDuplicate = False, duplicatePatients = [], suggestions = [],
                  validationErrors = validateCountrySpecificFields r []\<rparr>)) \<and>
   (\<forall>q\<in>set (fst (analyzeDuplicates e db r)). \<exists>qs. q = FindOr qs \<and> qs \<noteq> [] \<and> [] \<notin> set qs) \<and>
   ((truthy (name r) \<or> truthyNum (age r) \<or> country r \<noteq> None \<or>
       list_ex (\<lambda>f. truthy (identifiers r f)) [nhsNumber, mrn, hospitalUidAadhaar]) \<and>
    \<not> nameRejected e r \<longrightarrow>
      exactQuery r \<noteq> [] \<and> (\<exists>rest. fst (findMatches e db r) = Find (exactQuery r) # rest))"
proof (intro conjI impI ballI)
  assume "zeroQualifying r"
  then show "analyzeDuplicates e db r =
      ([], Inr \<lparr>isDuplicate = False, duplicatePatients = [], suggestions = [],
                validationErrors = validateCountrySpecificFields r []\<rparr>)"
    by (rule analyzeDuplicates_zeroQualifying)
next
  fix q
  assume "q \<in> set (fst (analyzeDuplicates e db r))"
  then show "\<exists>qs. q = FindOr qs \<and> qs \<noteq> [] \<and> [] \<notin> set qs"
    unfolding analyzeDuplicates_issued by (rule findDuplicates_only_or)
next
  assume a: "(truthy (name r) \<or> truthyNum (age r) \<or> country r \<noteq> None \<or>
       list_ex (\<lambda>f. truthy (identifiers r f)) [nhsNumber, mrn, hospitalUidAadhaar]) \<and>
    \<not> nameRejected e r"
  then show "exactQuery r \<noteq> []" using carries_exactQuery [of r] by blast
  show "\<exists>rest. fst (findMatches e db r) = Find (exactQuery r) # rest"
    using a findMatches_accepted [of e r db] by simp
qed

theorem C5_exact_lookup_skip_witness:
  "zeroQualifying nameOnly \<and> truthy (name nameOnly) \<and> \<not> nameRejected sampleEngine nameOnly \<and>
   analyzeDuplicates sampleEngine sampleStore nameOnly =
     ([], Inr \<lparr>isDuplicate = False, duplicatePatients = [], suggestions = [],
               validationErrors = validateCountrySpecificFields nameOnly []\<rparr>) \<and>
   exactQuery nameOnly \<noteq> [] \<and>
   (\<exists>rest. fst (findMatches sampleEngine sampleStore nameOnly) = Find (exactQuery nameOnly) # rest)"
proof -
  have z: "zeroQualifying nameOnly"
    by (simp add: zeroQualifying_def nameOnly_def uniqueFields_def identifiers_def truthy_def
        truthyNum_def)
  have t: "truthy (name nameOnly)" by (simp add: nameOnly_def truthy_def)
  have n: "\<not> nameRejected sampleEngine nameOnly" by code_simp
  from C5_exact_lookup_skip [of nameOnly sampleEngine sampleStore] z t n show ?thesis by blast
qed

text \<open>
  The claim C5 as stated fails for FindMatches: a record with a name alone has zero
  qualifying fields, and FindMatches queries the store by that name and returns the two
  records so found as exact matches.
\<close>

theorem C5_exact_lookup_skip_counterexample:
  "zeroQualifying nameOnly \<and>
   fst (findMatches sampleEngine sampleStore nameOnly) =
     [Find [NameRegExp ''Ann Lee''], FindText ''Ann Lee'' None [2, 3]] \<and>
   (case snd (findMatches sampleEngine sampleStore nameOnly) of
      Inl err \<Rightarrow> [] | Inr res \<Rightarrow> map p_id (exactMatches res)) = [Some 2, Some 3]"
  by code_simp

text \<open>
  C6, as amended. The exact lookup of AnalyzeDuplicates is a disjunction: unless the
  construction of the regular expression throws, a stored record is returned as a
  duplicate if and only if it shares a non-empty value of nhsNumber, mrn,
  hospitalUidAadhaar or ssn with the record, or name, age and country are all present and
  it matches the name (as a case-insensitive regular expression), the age and the country.
  The exact lookup of FindMatches is a conjunction: unless the name is rejected, a stored
  record is an exact match if and only if it meets every condition for those of name, age,
  country, nhsNumber, mrn and hospitalUidAadhaar that the record carries.
\<close>

theorem C6_exact_lookup_queries:
  "snd (findDuplicates e db r) =
     (if throwsSyntaxError e r then Inl SyntaxError
      else Inr (filter (\<lambda>d. sharesIdentifier r d \<or> sameNameAgeCountry e r d) db)) \<and>
   map_sum id exactMatches (snd (findMatches e db r)) =
     (if nameRejected e r then Inl SyntaxError
      else Inr (filter (matchesAllCarried e r) db))"
proof -
  have "map_sum id exactMatches (snd (findMatches e db r)) =
     (if nameRejected e r then Inl SyntaxError else Inr (filter (matchesAllCarried e r) db))"
    using findMatches_rejected [of e r db] findMatches_accepted [of e r db] by auto
  then show ?thesis using findDuplicates_result by blast
qed

text \<open>
  The claim C6 as stated fails for FindMatches: the stored record of John Smith shares the
  NHS number of the query, so it satisfies a clause and AnalyzeDuplicates returns it; the
  query also carries the name Bob, and FindMatches returns no exact match.
\<close>

theorem C6_exact_lookup_queries_counterexample:
  "sharesIdentifier bobQuery johnSmith \<and> sampleStore ! 0 = johnSmith \<and>
   (case snd (findDuplicates sampleEngine sampleStore bobQuery) of
      Inl err \<Rightarrow> [] | Inr ds \<Rightarrow> map p_id ds) = [Some 1] \<and>
   map_sum id (\<lambda>res. map p_id (exactMatches res))
     (snd (findMatches sampleEngine sampleStore bobQuery)) = Inr []"
proof -
  have 1: "sharesIdentifier bobQuery johnSmith" by code_simp
  have 2: "sampleStore ! 0 = johnSmith" by (simp add: sampleStore_def)
  have 3: "(case snd (findDuplicates sampleEngine sampleStore bobQuery) of
      Inl err \<Rightarrow> [] | Inr ds \<Rightarrow> map p_id ds) = [Some 1]" by code_simp
  have 4: "map_sum id (\<lambda>res. map p_id (exactMatches res))
     (snd (findMatches sampleEngine sampleStore bobQuery)) = Inr []" by code_simp
  from 1 2 3 4 show ?thesis by blast
qed




text \<open>
  C8. For every query record and every candidate, the overall score lies in [0,1]; and it
  is exactly 1 when the query equals the candidate on all weighted fields (name, age,
  country and identifiers).
\<close>

theorem C8_overall_score_range:
  "(0 \<le> calculateOverallMatchScore q p \<and> calculateOverallMatchScore q p \<le> 1) \<and>
   (name q = Some (p_name p) \<and> age q = Some (p_age p) \<and> country q = Some (p_country p) \<and>
    countryData q = p_countryData p \<longrightarrow> calculateOverallMatchScore q p = 1)"
  using calculateOverallMatchScore_bounds calculateOverallMatchScore_identical by blast

theorem C8_overall_score_range_witness:
  "name johnQuery = Some (p_name johnSmith) \<and> age johnQuery = Some (p_age johnSmith) \<and>
   country johnQuery = Some (p_country johnSmith) \<and>
   countryData johnQuery = p_countryData johnSmith \<and>
   calculateOverallMatchScore johnQuery johnSmith = 1"
proof -
  have h: "name johnQuery = Some (p_name johnSmith) \<and> age johnQuery = Some (p_age johnSmith) \<and>
      country johnQuery = Some (p_country johnSmith) \<and>
      countryData johnQuery = p_countryData johnSmith"
    by (simp add: johnQuery_def johnSmith_def)
  with C8_overall_score_range [of johnQuery johnSmith] show ?thesis by blast
qed

text \<open>
  C9. The name similarity is symmetric: for all strings \<open>a\<close> and \<open>b\<close>, the similarity of
  \<open>a\<close> and \<open>b\<close> equals that of \<open>b\<close> and \<open>a\<close>.
\<close>

theorem C9_name_similarity_symmetric:
  "calculateNameSimilarity a b = calculateNameSimilarity b a"
  by (simp add: calculateNameSimilarity_levenshtein Let_def
        levenshtein_sym [of "normalize_str a"] max.commute)

text \<open>
  C10. Whenever the country of the record is absent or its countryData is absent, the
  validator returns the empty list of errors, whichever required fields (name and age
  included) are missing.
\<close>

theorem C10_validate_skipped:
  "country r = None \<or> countryData r = None \<Longrightarrow> validateCountrySpecificFields r [] = []"
  by (rule validate_skipped)

theorem C10_validate_skipped_witness:
  "country emptyRecord = None \<and> \<not> truthy (name emptyRecord) \<and> \<not> truthyNum (age emptyRecord) \<and>
   validateCountrySpecificFields emptyRecord [] = []"
proof -
  have h: "country emptyRecord = None" by (simp add: emptyRecord_def)
  then have "country emptyRecord = None \<or> countryData emptyRecord = None" by simp
  from C10_validate_skipped [OF this] h show ?thesis
    by (simp add: emptyRecord_def truthy_def truthyNum_def)
qed

end
